theory Spec2Isabelle
  imports Main "HOL-Library.AList"
begin

section \<open>Collaborators: field values, levels, records\<close>

text \<open>
  A logrus field value is a Go \<^verbatim>\<open>interface{}\<close>. The code looks at a value in one place
  only, the type switch \<^verbatim>\<open>case error\<close> of \<^verbatim>\<open>WriteWithPrefix\<close>; the JSON encoder looks at
  it again. The variant below keeps the kinds that the code and the tests use, and one kind
  (\<open>VChan\<close>, a Go channel) that \<^verbatim>\<open>encoding/json\<close> refuses to serialise.
\<close>

datatype val =
    VString string
  | VInt int
  | VBool bool
  | VNil
  | VError string
  | VChan

text \<open>
  \<^verbatim>\<open>logrus.Fields\<close> is \<^verbatim>\<open>map[string]interface{}\<close>. A map is an association list with
  one pair per key; assignment \<^verbatim>\<open>m[k] = v\<close> is \<open>AList.update\<close>, \<^verbatim>\<open>delete(m, k)\<close> is
  \<open>AList.delete\<close>, the lookup \<^verbatim>\<open>v, ok := m[k]\<close> is \<open>map_of\<close>. Records are taken as logrus
  builds them, with a non-nil \<^verbatim>\<open>Data\<close> map.
\<close>

type_synonym Fields = "(string \<times> val) list"

datatype Level = PanicLevel | FatalLevel | ErrorLevel | WarnLevel | InfoLevel | DebugLevel

text \<open>\<^verbatim>\<open>Level.String()\<close> of logrus, for the levels that \<^verbatim>\<open>Levels()\<close> lists.\<close>

fun Level_String :: "Level \<Rightarrow> string" where
  "Level_String PanicLevel = ''panic''"
| "Level_String FatalLevel = ''fatal''"
| "Level_String ErrorLevel = ''error''"
| "Level_String WarnLevel = ''warning''"
| "Level_String InfoLevel = ''info''"
| "Level_String DebugLevel = ''debug''"

record 'tm Entry =
  Data :: Fields
  Time :: 'tm
  Level :: Level
  Message :: string

text \<open>\<^verbatim>\<open>strings.HasPrefix\<close> and \<^verbatim>\<open>strings.TrimPrefix\<close> of the Go standard library.\<close>

definition HasPrefix :: "string \<Rightarrow> string \<Rightarrow> bool" where
  "HasPrefix s p = (length p \<le> length s \<and> take (length p) s = p)"

definition TrimPrefix :: "string \<Rightarrow> string \<Rightarrow> string" where
  "TrimPrefix s p = (if HasPrefix s p then drop (length p) s else s)"

text \<open>
  What the encoder takes from outside the repository: \<^verbatim>\<open>json.Marshal\<close> (its error text on
  the left), \<^verbatim>\<open>Time.Format\<close>, the constant \<^verbatim>\<open>defaultTimestampFormat\<close> (declared in a file
  that is not among the sources), and the order in which \<^verbatim>\<open>range\<close> visits the pairs of a
  map, which Go leaves unspecified. The order matters in the encoder only, where two keys
  can become one once the prefix is gone; the two loops of the hook compute the same
  mapping in every order and visit the list as it stands.
\<close>

record 'tm extern =
  json_Marshal :: "Fields \<Rightarrow> string + string"
  time_Format :: "'tm \<Rightarrow> string \<Rightarrow> string"
  defaultTimestampFormat :: string
  range_order :: "Fields \<Rightarrow> Fields"

section \<open>The encoder (logstash\_writer.go)\<close>

record LogstashWriter =
  Type :: string
  TimestampFormat :: string

definition newline :: string where
  "newline = [CHR 0x0A]"

text \<open>
  The body of the loop over \<^verbatim>\<open>entry.Data\<close>: the key loses the prefix (lines 29 to 31),
  an error value becomes its text (the type switch), and the pair is stored.
\<close>

definition sent_key :: "string \<Rightarrow> string \<Rightarrow> string" where
  "sent_key prefix k = (if prefix \<noteq> [] \<and> HasPrefix k prefix then TrimPrefix k prefix else k)"

definition sent_value :: "val \<Rightarrow> val" where
  "sent_value v = (case v of VError e \<Rightarrow> VString e | _ \<Rightarrow> v)"

definition copy_field :: "string \<Rightarrow> Fields \<Rightarrow> string \<times> val \<Rightarrow> Fields" where
  "copy_field prefix flds kv =
     AList.update (sent_key prefix (fst kv)) (sent_value (snd kv)) flds"

text \<open>Lines 26 to 41: the mapping after the loop.\<close>

definition copied_fields :: "'tm extern \<Rightarrow> 'tm Entry \<Rightarrow> string \<Rightarrow> Fields" where
  "copied_fields ext entry prefix = foldl (copy_field prefix) [] (range_order ext (Data entry))"

text \<open>
  The three blocks that the source marks ``set message field'', ``set level field'' and
  ``set type field'' (lines 53 to 74). Each looks its key up in \<^verbatim>\<open>entry.Data\<close>, the
  record's own mapping.
\<close>

definition set_message_field :: "'tm Entry \<Rightarrow> Fields \<Rightarrow> Fields" where
  "set_message_field entry flds =
     (let flds = (case map_of (Data entry) ''message'' of
                    Some v \<Rightarrow> AList.update ''fields.message'' v flds
                  | None \<Rightarrow> flds)
      in AList.update ''message'' (VString (Message entry)) flds)"

definition set_level_field :: "'tm Entry \<Rightarrow> Fields \<Rightarrow> Fields" where
  "set_level_field entry flds =
     (let flds = (case map_of (Data entry) ''level'' of
                    Some v \<Rightarrow> AList.update ''fields.level'' v flds
                  | None \<Rightarrow> flds)
      in AList.update ''level'' (VString (Level_String (Level entry))) flds)"

definition set_type_field :: "LogstashWriter \<Rightarrow> 'tm Entry \<Rightarrow> Fields \<Rightarrow> Fields" where
  "set_type_field w entry flds =
     (if Type w \<noteq> [] then
        (let flds = (case map_of (Data entry) ''type'' of
                       Some v \<Rightarrow> AList.update ''fields.type'' v flds
                     | None \<Rightarrow> flds)
         in AList.update ''type'' (VString (Type w)) flds)
      else flds)"

text \<open>Lines 26 to 74: the mapping that is handed to the JSON encoder.\<close>

definition logstash_fields :: "'tm extern \<Rightarrow> LogstashWriter \<Rightarrow> 'tm Entry \<Rightarrow> string \<Rightarrow> Fields" where
  "logstash_fields ext w entry prefix =
     (let flds = copied_fields ext entry prefix;
          flds = AList.update ''@version'' (VString ''1'') flds;
          timeStampFormat =
            (if TimestampFormat w = [] then defaultTimestampFormat ext else TimestampFormat w);
          flds = AList.update ''@timestamp''
                   (VString (time_Format ext (Time entry) timeStampFormat)) flds;
          flds = set_message_field entry flds;
          flds = set_level_field entry flds
      in set_type_field w entry flds)"

text \<open>
  An \<^verbatim>\<open>io.Writer\<close> is a sink state \<open>'w\<close> with its \<^verbatim>\<open>Write\<close> method: the new state and
  the error, if any. \<^verbatim>\<open>Encoder.Encode\<close> of \<^verbatim>\<open>encoding/json\<close> marshals the value and, when
  that succeeds, writes the JSON text followed by a newline character in one \<^verbatim>\<open>Write\<close>
  (``Encode writes the JSON encoding of v to the stream, followed by a newline character'').
  When marshalling fails nothing is written.
\<close>

type_synonym 'w Writer = "'w \<Rightarrow> string \<Rightarrow> 'w \<times> string option"

definition Encode :: "'tm extern \<Rightarrow> 'w Writer \<Rightarrow> 'w \<Rightarrow> Fields \<Rightarrow> 'w \<times> string option" where
  "Encode ext write writer v =
     (case json_Marshal ext v of
        Inl err \<Rightarrow> (writer, Some err)
      | Inr b \<Rightarrow> write writer (b @ newline))"

definition marshal_error :: "string \<Rightarrow> string" where
  "marshal_error err = ''Failed to marshal fields to JSON, '' @ err"

definition WriteWithPrefix ::
  "'tm extern \<Rightarrow> LogstashWriter \<Rightarrow> 'w Writer \<Rightarrow> 'w \<Rightarrow> 'tm Entry \<Rightarrow> string \<Rightarrow> 'w \<times> string option" where
  "WriteWithPrefix ext w write writer entry prefix =
     (let flds = logstash_fields ext w entry prefix in
      case Encode ext write writer flds of
        (writer, Some err) \<Rightarrow> (writer, Some (marshal_error err))
      | (writer, None) \<Rightarrow>
          (case write writer newline of
             (writer, Some err) \<Rightarrow> (writer, Some (marshal_error err))
           | (writer, None) \<Rightarrow> (writer, None)))"

text \<open>\<^verbatim>\<open>bytes.Buffer\<close> as a writer: \<^verbatim>\<open>Write\<close> appends and returns a nil error.\<close>

definition Buffer_Write :: "string Writer" where
  "Buffer_Write b p = (b @ p, None)"

section \<open>The hook, the queue, the pools and the sender\<close>

record Hook =
  protocol :: string
  address :: string
  filtering :: bool
  appName :: string
  alwaysSentFields :: Fields
  hookOnlyPrefix :: string

text \<open>
  \<^verbatim>\<open>sendMessage\<close>; its three fields carry the prefix \<open>msg_\<close> because \<open>protocol\<close> and
  \<open>address\<close> are fields of \<open>Hook\<close> already. \<open>msg_data\<close> is the buffer, with its bytes.
\<close>

record sendMessage =
  msg_protocol :: string
  msg_address :: string
  msg_data :: string

type_synonym conn = nat

text \<open>
  The network is outside the repository: a state \<open>'n\<close> with \<^verbatim>\<open>net.Dial\<close> and the
  \<^verbatim>\<open>Write\<close> method of a connection. The model keeps a trace of the calls it makes.
\<close>

record 'n Net =
  net_Dial :: "'n \<Rightarrow> string \<Rightarrow> string \<Rightarrow> 'n \<times> (string + conn)"
  conn_Write :: "'n \<Rightarrow> conn \<Rightarrow> string \<Rightarrow> 'n \<times> (nat \<times> string option)"

datatype net_op = OpWrite conn string | OpDial string string

text \<open>
  The package variables \<^verbatim>\<open>entryChan\<close> (the pending messages, oldest first),
  \<^verbatim>\<open>formatBuff\<close> (the idle buffers of the \<^verbatim>\<open>sync.Pool\<close>, each with the bytes it still
  holds) and \<^verbatim>\<open>connPool\<close> (a missing key reads as the nil connection, \<open>None\<close>), with
  the standard error stream and the network. \<open>Fire\<close> and one turn of the sender's loop
  are atomic steps on this state.
\<close>

record 'n state =
  entryChan :: "sendMessage list"
  formatBuff :: "string list"
  connPool :: "string \<rightharpoonup> conn"
  stderr :: string
  network :: 'n
  net_trace :: "net_op list"

definition entryChan_cap :: nat where
  "entryChan_cap = 1000"

text \<open>
  \<^verbatim>\<open>sync.Pool\<close>: \<^verbatim>\<open>Get\<close> hands out an idle buffer, or the result of \<^verbatim>\<open>New\<close> (an empty
  buffer) when there is none; \<^verbatim>\<open>Put\<close> adds a buffer to the idle ones.
\<close>

definition pool_Get :: "string list \<Rightarrow> string \<times> string list" where
  "pool_Get pool = (case pool of [] \<Rightarrow> ([], []) | b # rest \<Rightarrow> (b, rest))"

definition pool_Put :: "string \<Rightarrow> string list \<Rightarrow> string list" where
  "pool_Put b pool = b # pool"

text \<open>\<^verbatim>\<open>getFormatBuf\<close>: \<^verbatim>\<open>Get\<close>, then \<^verbatim>\<open>Reset\<close> empties the buffer.\<close>

definition getFormatBuf :: "'n state \<Rightarrow> string \<times> 'n state" where
  "getFormatBuf s =
     (case pool_Get (formatBuff s) of (b, rest) \<Rightarrow> ([], s\<lparr>formatBuff := rest\<rparr>))"

text \<open>
  \<^verbatim>\<open>filterHookOnly\<close>: the loop visits the keys of the map and deletes each key that has
  the prefix.
\<close>

definition filterHookOnly :: "Hook \<Rightarrow> 'tm Entry \<Rightarrow> 'tm Entry" where
  "filterHookOnly h entry =
     (if hookOnlyPrefix h \<noteq> [] then
        entry\<lparr>Data :=
          foldl (\<lambda>d key. if HasPrefix key (hookOnlyPrefix h) then AList.delete key d else d)
            (Data entry) (map fst (Data entry))\<rparr>
      else entry)"

text \<open>Lines 97 to 101 of \<^verbatim>\<open>Fire\<close>: the default fields fill the keys the record lacks.\<close>

definition addAlwaysSentFields :: "Hook \<Rightarrow> 'tm Entry \<Rightarrow> 'tm Entry" where
  "addAlwaysSentFields h entry =
     entry\<lparr>Data :=
       foldl (\<lambda>d (k, v). if map_of d k = None then AList.update k v d else d)
         (Data entry) (alwaysSentFields h)\<rparr>"

text \<open>
  The \<^verbatim>\<open>select\<close> with a \<^verbatim>\<open>default\<close> branch: the send happens when the channel has room,
  otherwise nothing happens.
\<close>

definition try_send :: "sendMessage \<Rightarrow> 'n state \<Rightarrow> 'n state" where
  "try_send m s =
     (if length (entryChan s) < entryChan_cap then s\<lparr>entryChan := entryChan s @ [m]\<rparr> else s)"

text \<open>
  \<^verbatim>\<open>Fire\<close> returns its error (\<open>None\<close> is nil), the caller's record as the call leaves it,
  and the new state. The deferred \<^verbatim>\<open>filterHookOnly\<close> runs on every return.
\<close>

definition Fire ::
  "'tm extern \<Rightarrow> Hook \<Rightarrow> 'tm Entry \<Rightarrow> 'n state \<Rightarrow> string option \<times> 'tm Entry \<times> 'n state" where
  "Fire ext h entry s =
     (let entry = addAlwaysSentFields h entry in
      if filtering h then (None, filterHookOnly h entry, s)
      else
        (case getFormatBuf s of (buff, s) \<Rightarrow>
           (let writer = \<lparr>Type = appName h, TimestampFormat = []\<rparr> in
            case WriteWithPrefix ext writer Buffer_Write buff entry (hookOnlyPrefix h) of
              (buff, Some err) \<Rightarrow> (Some err, filterHookOnly h entry, s)
            | (buff, None) \<Rightarrow>
                (None, filterHookOnly h entry,
                 try_send \<lparr>msg_protocol = protocol h, msg_address = address h, msg_data = buff\<rparr> s))))"

definition do_Write :: "'n Net \<Rightarrow> conn \<Rightarrow> string \<Rightarrow> 'n state \<Rightarrow> (nat \<times> string option) \<times> 'n state" where
  "do_Write N c b s =
     (case conn_Write N (network s) c b of
        (n', r) \<Rightarrow> (r, s\<lparr>network := n', net_trace := net_trace s @ [OpWrite c b]\<rparr>))"

definition do_Dial :: "'n Net \<Rightarrow> string \<Rightarrow> string \<Rightarrow> 'n state \<Rightarrow> (string + conn) \<times> 'n state" where
  "do_Dial N p a s =
     (case net_Dial N (network s) p a of
        (n', r) \<Rightarrow> (r, s\<lparr>network := n', net_trace := net_trace s @ [OpDial p a]\<rparr>))"

definition pool_key :: "sendMessage \<Rightarrow> string" where
  "pool_key d = msg_protocol d @ '':'' @ msg_address d"

text \<open>Lines 159 to 165 of \<^verbatim>\<open>sendDataAndRetry\<close>: dial, store the connection, write.\<close>

definition dial_and_write :: "'n Net \<Rightarrow> sendMessage \<Rightarrow> 'n state \<Rightarrow> (nat \<times> string option) \<times> 'n state" where
  "dial_and_write N d s =
     (case do_Dial N (msg_protocol d) (msg_address d) s of
        (Inl err, s) \<Rightarrow> ((0, Some err), s)
      | (Inr c, s) \<Rightarrow> do_Write N c (msg_data d) (s\<lparr>connPool := (connPool s)(pool_key d \<mapsto> c)\<rparr>))"

definition sendDataAndRetry :: "'n Net \<Rightarrow> sendMessage \<Rightarrow> 'n state \<Rightarrow> (nat \<times> string option) \<times> 'n state" where
  "sendDataAndRetry N d s =
     (case connPool s (pool_key d) of
        Some c \<Rightarrow>
          (case do_Write N c (msg_data d) s of
             ((n, None), s) \<Rightarrow> ((n, None), s)
           | ((n, Some err), s) \<Rightarrow> dial_and_write N d s)
      | None \<Rightarrow> dial_and_write N d s)"

text \<open>The body of the loop of \<^verbatim>\<open>processEntryData\<close>, for the message \<open>d\<close> just received.\<close>

definition processEntry :: "'n Net \<Rightarrow> sendMessage \<Rightarrow> 'n state \<Rightarrow> 'n state" where
  "processEntry N d s =
     (case sendDataAndRetry N d s of
        ((n, err), s) \<Rightarrow>
          (let s = s\<lparr>formatBuff := pool_Put (msg_data d) (formatBuff s)\<rparr> in
           case err of
             Some e \<Rightarrow> s\<lparr>stderr := stderr s @ ''Error sending data to logstash: '' @ e\<rparr>
           | None \<Rightarrow> s))"

text \<open>
  \<^verbatim>\<open>processEntryData\<close> never returns: it receives from the channel for ever and waits
  when the channel is empty. With fuel for the number of turns, it stops where the loop
  would wait.
\<close>

fun processEntryData :: "'n Net \<Rightarrow> nat \<Rightarrow> 'n state \<Rightarrow> 'n state" where
  "processEntryData N 0 s = s"
| "processEntryData N (Suc fuel) s =
     (case entryChan s of
        [] \<Rightarrow> s
      | d # rest \<Rightarrow> processEntryData N fuel (processEntry N d (s\<lparr>entryChan := rest\<rparr>)))"

text \<open>The constructors of the two kinds of hook, and \<^verbatim>\<open>WithFields\<close>.\<close>

definition NewHookWithFieldsAndPrefix :: "string \<Rightarrow> string \<Rightarrow> string \<Rightarrow> Fields \<Rightarrow> string \<Rightarrow> Hook" where
  "NewHookWithFieldsAndPrefix proto addr name always prefix =
     \<lparr>protocol = proto, address = addr, filtering = False, appName = name,
      alwaysSentFields = always, hookOnlyPrefix = prefix\<rparr>"

definition NewFilterHookWithPrefix :: "string \<Rightarrow> Hook" where
  "NewFilterHookWithPrefix prefix =
     \<lparr>protocol = [], address = [], filtering = True, appName = [],
      alwaysSentFields = [], hookOnlyPrefix = prefix\<rparr>"

definition WithFields :: "Fields \<Rightarrow> Hook \<Rightarrow> Hook" where
  "WithFields flds h =
     h\<lparr>alwaysSentFields := foldl (\<lambda>m (key, v). AList.update key v m) (alwaysSentFields h) flds\<rparr>"

text \<open>
  Two names for what \<^verbatim>\<open>Fire\<close> passes on in shipping mode: the arguments of its call of
  the encoder, and the mapping which that call hands to the JSON encoder.
\<close>

definition Fire_encode :: "'tm extern \<Rightarrow> Hook \<Rightarrow> 'tm Entry \<Rightarrow> string \<times> string option" where
  "Fire_encode ext h entry =
     WriteWithPrefix ext \<lparr>Type = appName h, TimestampFormat = []\<rparr> Buffer_Write []
       (addAlwaysSentFields h entry) (hookOnlyPrefix h)"

definition Fire_fields :: "'tm extern \<Rightarrow> Hook \<Rightarrow> 'tm Entry \<Rightarrow> Fields" where
  "Fire_fields ext h entry =
     logstash_fields ext \<lparr>Type = appName h, TimestampFormat = []\<rparr>
       (addAlwaysSentFields h entry) (hookOnlyPrefix h)"


section \<open>Concrete collaborators, for running the model\<close>

text \<open>
  The theorems below hold for every \<open>extern\<close> and every \<open>Net\<close>. To run the model on
  concrete records, this section gives one instance of each, after the documentation of
  the Go standard library: \<^verbatim>\<open>json.Marshal\<close> on a \<^verbatim>\<open>map[string]interface{}\<close> writes the
  keys in byte order, escapes strings (with the HTML escapes, as an \<^verbatim>\<open>Encoder\<close> does by
  default; bytes from 0x80 up are taken to be valid UTF-8 and copied), and fails with an
  \<^verbatim>\<open>UnsupportedTypeError\<close> on a channel. An error value such as the one of \<^verbatim>\<open>errors.New\<close>
  has no exported field and marshals to an empty object.
\<close>

definition hex_digit :: "nat \<Rightarrow> char" where
  "hex_digit n = ''0123456789abcdef'' ! (n mod 16)"

definition json_char :: "char \<Rightarrow> string" where
  "json_char c =
     (if c = CHR 0x22 then [CHR 0x5C, CHR 0x22]
      else if c = CHR 0x5C then [CHR 0x5C, CHR 0x5C]
      else if c = CHR 0x08 then [CHR 0x5C, CHR ''b'']
      else if c = CHR 0x0C then [CHR 0x5C, CHR ''f'']
      else if c = CHR 0x0A then [CHR 0x5C, CHR ''n'']
      else if c = CHR 0x0D then [CHR 0x5C, CHR ''r'']
      else if c = CHR 0x09 then [CHR 0x5C, CHR ''t'']
      else if (of_char c :: nat) < 32 \<or> c = CHR ''<'' \<or> c = CHR ''>'' \<or> c = CHR ''&''
        then [CHR 0x5C, CHR ''u'', CHR ''0'', CHR ''0'',
              hex_digit ((of_char c :: nat) div 16), hex_digit (of_char c :: nat)]
      else [c])"

definition json_string :: "string \<Rightarrow> string" where
  "json_string s = [CHR 0x22] @ concat (map json_char s) @ [CHR 0x22]"

fun decimal :: "nat \<Rightarrow> string" where
  "decimal n = (if n < 10 then [hex_digit n] else decimal (n div 10) @ [hex_digit (n mod 10)])"

definition json_int :: "int \<Rightarrow> string" where
  "json_int i = (if i < 0 then ''-'' @ decimal (nat (- i)) else decimal (nat i))"

fun json_value :: "val \<Rightarrow> string + string" where
  "json_value (VString s) = Inr (json_string s)"
| "json_value (VInt i) = Inr (json_int i)"
| "json_value (VBool b) = Inr (if b then ''true'' else ''false'')"
| "json_value VNil = Inr ''null''"
| "json_value (VError e) = Inr ''{}''"
| "json_value VChan = Inl ''json: unsupported type: chan int''"

fun bytes_less :: "string \<Rightarrow> string \<Rightarrow> bool" where
  "bytes_less [] [] = False"
| "bytes_less [] (y # ys) = True"
| "bytes_less (x # xs) [] = False"
| "bytes_less (x # xs) (y # ys) =
     ((of_char x :: nat) < of_char y \<or> (x = y \<and> bytes_less xs ys))"

fun insert_key :: "string \<times> val \<Rightarrow> Fields \<Rightarrow> Fields" where
  "insert_key kv [] = [kv]"
| "insert_key kv (p # ps) =
     (if bytes_less (fst p) (fst kv) then p # insert_key kv ps else kv # p # ps)"

definition sort_keys :: "Fields \<Rightarrow> Fields" where
  "sort_keys m = foldr insert_key m []"

fun json_members :: "Fields \<Rightarrow> string + string list" where
  "json_members [] = Inr []"
| "json_members ((k, v) # m) =
     (case json_value v of
        Inl err \<Rightarrow> Inl err
      | Inr b \<Rightarrow>
          (case json_members m of
             Inl err \<Rightarrow> Inl err
           | Inr bs \<Rightarrow> Inr ((json_string k @ '':'' @ b) # bs)))"

fun join_comma :: "string list \<Rightarrow> string" where
  "join_comma [] = []"
| "join_comma [b] = b"
| "join_comma (b # bs) = b @ '','' @ join_comma bs"

definition go_Marshal :: "Fields \<Rightarrow> string + string" where
  "go_Marshal m =
     (case json_members (sort_keys m) of
        Inl err \<Rightarrow> Inl err
      | Inr bs \<Rightarrow> Inr (''{'' @ join_comma bs @ ''}''))"

text \<open>
  The record's time is Go's zero time (\<open>unit\<close>), as in the tests, and the default layout
  is \<^verbatim>\<open>time.RFC3339\<close>, which formats the zero time as the tests expect. Another layout is
  taken as literal text. \<^verbatim>\<open>range\<close> visits the pairs in the order of the list.
\<close>

definition RFC3339 :: string where
  "RFC3339 = ''2006-01-02T15:04:05Z07:00''"

definition go_extern :: "unit extern" where
  "go_extern =
     \<lparr>json_Marshal = go_Marshal,
      time_Format = (\<lambda>t layout. if layout = RFC3339 then ''0001-01-01T00:00:00Z'' else layout),
      defaultTimestampFormat = RFC3339,
      range_order = (\<lambda>m. m)\<rparr>"

text \<open>
  A network of numbered connections in which a connection in \<open>broken\<close> fails every write
  and every other write succeeds; a dial succeeds with the next fresh connection unless the
  endpoint is in \<open>down\<close>.
\<close>

record simnet =
  broken :: "conn list"
  down :: "string list"
  fresh :: conn

definition sim_Net :: "simnet Net" where
  "sim_Net =
     \<lparr>net_Dial = (\<lambda>n p a.
        if p @ '':'' @ a \<in> set (down n) then (n, Inl ''connection refused'')
        else (n\<lparr>fresh := Suc (fresh n)\<rparr>, Inr (fresh n))),
      conn_Write = (\<lambda>n c b.
        if c \<in> set (broken n) then (n, (0, Some ''broken pipe'')) else (n, (length b, None)))\<rparr>"

definition init_state :: "'n \<Rightarrow> 'n state" where
  "init_state n =
     \<lparr>entryChan = [], formatBuff = [], connPool = Map.empty, stderr = [],
      network = n, net_trace = []\<rparr>"

text \<open>
  The fixtures of \<^verbatim>\<open>TestFire\<close>; a filtering hook with the same default fields; a record
  with a field that cannot be serialised and one whose field takes the name \<open>message\<close>
  once the prefix is gone; a state whose queue is full.
\<close>

definition fire_test_hook :: Hook where
  "fire_test_hook =
     NewHookWithFieldsAndPrefix ''udp'' ''localhost:9999'' ''fire_test''
       [(''test-name'', VString ''fire-test''), (''->ignore'', VString ''haaa''),
        (''override'', VString ''no'')] ''->''"

definition fire_test_entry :: "unit Entry" where
  "fire_test_entry =
     \<lparr>Data = [(''override'', VString ''yes'')], Time = (), Level = DebugLevel,
      Message = ''hello world!''\<rparr>"

definition filter_test_hook :: Hook where
  "filter_test_hook =
     WithFields [(''test-name'', VString ''fire-test-hook''), (''_ignore'', VString ''haaa''),
                 (''override'', VString ''no'')] (NewFilterHookWithPrefix ''_'')"

definition chan_entry :: "unit Entry" where
  "chan_entry =
     \<lparr>Data = [(''done'', VChan)], Time = (), Level = InfoLevel, Message = ''closing''\<rparr>"


definition quiet_net :: simnet where
  "quiet_net = \<lparr>broken = [], down = [], fresh = 0\<rparr>"

definition pending :: sendMessage where
  "pending = \<lparr>msg_protocol = ''udp'', msg_address = ''localhost:9999'', msg_data = ''{}''\<rparr>"

definition full_state :: "simnet state" where
  "full_state = (init_state quiet_net)\<lparr>entryChan := replicate 1000 pending\<rparr>"


definition stale_state :: "simnet state" where
  "stale_state = (init_state quiet_net)\<lparr>formatBuff := [''stale bytes'']\<rparr>"

text \<open>
  A state whose pool holds connection 0 for the endpoint of \<open>pending\<close>, on a network where
  connection 0 is broken; in the second network the endpoint refuses the dial as well.
\<close>

definition pooled_state :: "simnet \<Rightarrow> simnet state" where
  "pooled_state n = (init_state n)\<lparr>connPool := [''udp:localhost:9999'' \<mapsto> 0]\<rparr>"

definition broken_net :: simnet where
  "broken_net = \<lparr>broken = [0], down = [], fresh = 1\<rparr>"

definition dead_net :: simnet where
  "dead_net = \<lparr>broken = [0], down = [''udp:localhost:9999''], fresh = 1\<rparr>"

text \<open>The calls that a step added to the trace, and the dials among them.\<close>

definition new_ops :: "'n state \<Rightarrow> 'n state \<Rightarrow> net_op list" where
  "new_ops s s' = drop (length (net_trace s)) (net_trace s')"

fun is_dial :: "net_op \<Rightarrow> bool" where
  "is_dial (OpDial p a) = True"
| "is_dial (OpWrite c b) = False"

section \<open>Auxiliary facts\<close>

subsection \<open>The loops of the hook\<close>

lemma delete_loop:
  "foldl (\<lambda>d key. if P key then AList.delete key d else d) d ks =
   filter (\<lambda>kv. \<not> (P (fst kv) \<and> fst kv \<in> set ks)) d"
proof (induction ks arbitrary: d)
  case Nil
  then show ?case by simp
next
  case (Cons k ks)
  have "filter (\<lambda>kv. \<not> (P (fst kv) \<and> fst kv \<in> set ks)) (AList.delete k d) =
        filter (\<lambda>kv. \<not> (P (fst kv) \<and> fst kv \<in> set ks) \<and> fst kv \<noteq> k) d"
    by (auto simp: AList.delete_eq case_prod_beta intro!: filter_cong)
  with Cons show ?case
    by (auto intro!: filter_cong)
qed

lemma filterHookOnly_Data:
  "Data (filterHookOnly h e) =
     (if hookOnlyPrefix h \<noteq> []
      then filter (\<lambda>kv. \<not> HasPrefix (fst kv) (hookOnlyPrefix h)) (Data e)
      else Data e)"
  by (auto simp: filterHookOnly_def delete_loop intro!: filter_cong)

lemma filterHookOnly_eq:
  "filterHookOnly h e =
     e\<lparr>Data :=
         (if hookOnlyPrefix h \<noteq> []
          then filter (\<lambda>kv. \<not> HasPrefix (fst kv) (hookOnlyPrefix h)) (Data e)
          else Data e)\<rparr>"
  using filterHookOnly_Data[of h e] by (simp add: filterHookOnly_def)





subsection \<open>The mapping of the encoder\<close>












subsection \<open>The encoder on a buffer, and \<open>Fire\<close>\<close>

lemma WriteWithPrefix_Buffer:
  "WriteWithPrefix ext w Buffer_Write b e p =
     (case json_Marshal ext (logstash_fields ext w e p) of
        Inl err \<Rightarrow> (b, Some (marshal_error err))
      | Inr js \<Rightarrow> (b @ js @ newline @ newline, None))"
  by (simp add: WriteWithPrefix_def Encode_def Buffer_Write_def Let_def split: sum.splits)

lemma Fire_encode_eq:
  "Fire_encode ext h e =
     (case json_Marshal ext (Fire_fields ext h e) of
        Inl err \<Rightarrow> ([], Some (marshal_error err))
      | Inr js \<Rightarrow> (js @ newline @ newline, None))"
  by (simp add: Fire_encode_def Fire_fields_def WriteWithPrefix_Buffer split: sum.splits)

lemma Fire_entry: "fst (snd (Fire ext h e s)) = filterHookOnly h (addAlwaysSentFields h e)"
  by (simp add: Fire_def Let_def split: prod.splits option.splits)

lemma Fire_filtering:
  "filtering h \<Longrightarrow> Fire ext h e s = (None, filterHookOnly h (addAlwaysSentFields h e), s)"
  by (simp add: Fire_def)

lemma Fire_shipping:
  "\<not> filtering h \<Longrightarrow>
   Fire ext h e s =
     (case Fire_encode ext h e of
        (buff, Some err) \<Rightarrow>
          (Some err, filterHookOnly h (addAlwaysSentFields h e),
           s\<lparr>formatBuff := snd (pool_Get (formatBuff s))\<rparr>)
      | (buff, None) \<Rightarrow>
          (None, filterHookOnly h (addAlwaysSentFields h e),
           try_send \<lparr>msg_protocol = protocol h, msg_address = address h, msg_data = buff\<rparr>
             (s\<lparr>formatBuff := snd (pool_Get (formatBuff s))\<rparr>)))"
  by (auto simp: Fire_def Fire_encode_def getFormatBuf_def Let_def
      split: prod.splits option.splits)

subsection \<open>Runs of the model on the fixtures\<close>

lemma marshal_fire_test:
  \<open>json_Marshal go_extern (Fire_fields go_extern fire_test_hook fire_test_entry) =
     Inr ''{"@timestamp":"0001-01-01T00:00:00Z","@version":"1","ignore":"haaa","level":"debug","message":"hello world!","override":"yes","test-name":"fire-test","type":"fire_test"}''\<close>
  by code_simp

lemma marshal_chan_entry:
  "json_Marshal go_extern (Fire_fields go_extern fire_test_hook chan_entry) =
     Inl ''json: unsupported type: chan int''"
  by code_simp

lemma not_filtering_fire_test_hook: "\<not> filtering fire_test_hook"
  by (simp add: fire_test_hook_def NewHookWithFieldsAndPrefix_def)

lemma fire_test_hook_simps:
  "protocol fire_test_hook = ''udp''" "address fire_test_hook = ''localhost:9999''"
  "hookOnlyPrefix fire_test_hook = ''->''" "appName fire_test_hook = ''fire_test''"
  by (simp_all add: fire_test_hook_def NewHookWithFieldsAndPrefix_def)

subsection \<open>The sender, the key sets of the document, and further runs\<close>

lemma filtering_filter_test_hook: "filtering filter_test_hook"
  by (simp add: filter_test_hook_def WithFields_def NewFilterHookWithPrefix_def)

lemma encode_chan_entry:
  "Fire_encode go_extern fire_test_hook chan_entry =
     ([], Some ''Failed to marshal fields to JSON, json: unsupported type: chan int'')"
  by (simp add: Fire_encode_eq marshal_chan_entry marshal_error_def)

lemma full_state_length: "length (entryChan full_state) = 1000"
  by (simp add: full_state_def init_state_def)

lemma processEntry_unfolded:
  "processEntry N d s =
     (let b = msg_data d;
          report = (\<lambda>err. ''Error sending data to logstash: '' @ err);
          redial = (\<lambda>n1 tried.
            case net_Dial N n1 (msg_protocol d) (msg_address d) of
              (n2, Inl err) \<Rightarrow>
                s\<lparr>formatBuff := b # formatBuff s,
                  stderr := stderr s @ report err,
                  network := n2,
                  net_trace := net_trace s @ tried @ [OpDial (msg_protocol d) (msg_address d)]\<rparr>
            | (n2, Inr c') \<Rightarrow>
                (case conn_Write N n2 c' b of
                   (n3, (k, r)) \<Rightarrow>
                     s\<lparr>formatBuff := b # formatBuff s,
                       connPool := (connPool s)(msg_protocol d @ '':'' @ msg_address d \<mapsto> c'),
                       stderr := stderr s @ (case r of None \<Rightarrow> [] | Some err \<Rightarrow> report err),
                       network := n3,
                       net_trace := net_trace s @ tried @
                         [OpDial (msg_protocol d) (msg_address d), OpWrite c' b]\<rparr>))
      in case connPool s (msg_protocol d @ '':'' @ msg_address d) of
           None \<Rightarrow> redial (network s) []
         | Some c \<Rightarrow>
             (case conn_Write N (network s) c b of
                (n1, (k, None)) \<Rightarrow>
                  s\<lparr>formatBuff := b # formatBuff s,
                    network := n1,
                    net_trace := net_trace s @ [OpWrite c b]\<rparr>
              | (n1, (k, Some err)) \<Rightarrow> redial n1 [OpWrite c b]))"
  by (simp add: processEntry_def sendDataAndRetry_def dial_and_write_def do_Write_def
      do_Dial_def pool_key_def pool_Put_def Let_def
      split: prod.splits sum.splits option.splits)

lemma processEntry_formatBuff:
  "formatBuff (processEntry N d s) = msg_data d # formatBuff s"
  by (simp add: processEntry_unfolded Let_def split: prod.splits sum.splits option.splits)

lemma processEntry_net_trace:
  "\<exists>tr. net_trace (processEntry N d s) = net_trace s @ tr \<and>
     length (filter is_dial tr) \<le> 1 \<and> length (filter (\<lambda>x. \<not> is_dial x) tr) \<le> 2"
  by (simp add: processEntry_unfolded Let_def split: prod.splits sum.splits option.splits)










section \<open>The encoder\<close>







section \<open>The sender\<close>

text \<open>
  C3. One turn of the sender on a message \<open>d\<close>, written out on the state before it. If
  the pool holds a connection for \<open>protocol:address\<close>, one write goes to it, and its
  success ends the turn. If there is none, or that write failed, the endpoint is dialled
  once. A failed dial ends the turn: the pool keeps what it had and the error goes to the
  standard error stream. After a successful dial the new connection takes the endpoint's
  place in the pool and receives one write, whose error, if any, goes to the standard error
  stream; nothing is tried after it. In every case the buffer of \<open>d\<close> is put back into
  the buffer pool, and the trace shows the calls that were made.
\<close>

theorem sender_turn:
  "formatBuff (processEntry N d s) = msg_data d # formatBuff s \<and>
   length (filter is_dial (new_ops s (processEntry N d s))) \<le> 1 \<and>
   length (filter (\<lambda>x. \<not> is_dial x) (new_ops s (processEntry N d s))) \<le> 2 \<and>
   processEntry N d s =
     (let b = msg_data d;
          report = (\<lambda>err. ''Error sending data to logstash: '' @ err);
          redial = (\<lambda>n1 tried.
            case net_Dial N n1 (msg_protocol d) (msg_address d) of
              (n2, Inl err) \<Rightarrow>
                s\<lparr>formatBuff := b # formatBuff s,
                  stderr := stderr s @ report err,
                  network := n2,
                  net_trace := net_trace s @ tried @ [OpDial (msg_protocol d) (msg_address d)]\<rparr>
            | (n2, Inr c') \<Rightarrow>
                (case conn_Write N n2 c' b of
                   (n3, (k, r)) \<Rightarrow>
                     s\<lparr>formatBuff := b # formatBuff s,
                       connPool := (connPool s)(msg_protocol d @ '':'' @ msg_address d \<mapsto> c'),
                       stderr := stderr s @ (case r of None \<Rightarrow> [] | Some err \<Rightarrow> report err),
                       network := n3,
                       net_trace := net_trace s @ tried @
                         [OpDial (msg_protocol d) (msg_address d), OpWrite c' b]\<rparr>))
      in case connPool s (msg_protocol d @ '':'' @ msg_address d) of
           None \<Rightarrow> redial (network s) []
         | Some c \<Rightarrow>
             (case conn_Write N (network s) c b of
                (n1, (k, None)) \<Rightarrow>
                  s\<lparr>formatBuff := b # formatBuff s,
                    network := n1,
                    net_trace := net_trace s @ [OpWrite c b]\<rparr>
              | (n1, (k, Some err)) \<Rightarrow> redial n1 [OpWrite c b]))"
proof -
  obtain tr where "net_trace (processEntry N d s) = net_trace s @ tr"
    and "length (filter is_dial tr) \<le> 1" and "length (filter (\<lambda>x. \<not> is_dial x) tr) \<le> 2"
    using processEntry_net_trace[of N d s] by blast
  then have "length (filter is_dial (new_ops s (processEntry N d s))) \<le> 1"
    and "length (filter (\<lambda>x. \<not> is_dial x) (new_ops s (processEntry N d s))) \<le> 2"
    by (simp_all add: new_ops_def)
  then show ?thesis
    using processEntry_formatBuff[of N d s] processEntry_unfolded[of N d s] by blast
qed

theorem sender_turn_witness:
  "connPool (pooled_state broken_net) ''udp:localhost:9999'' = Some 0 \<and>
   net_trace (processEntry sim_Net pending (pooled_state broken_net)) =
     [OpWrite 0 ''{}'', OpDial ''udp'' ''localhost:9999'', OpWrite 1 ''{}''] \<and>
   connPool (processEntry sim_Net pending (pooled_state broken_net)) ''udp:localhost:9999'' = Some 1 \<and>
   stderr (processEntry sim_Net pending (pooled_state broken_net)) = [] \<and>
   formatBuff (processEntry sim_Net pending (pooled_state broken_net)) = [''{}''] \<and>
   net_trace (processEntry sim_Net pending (pooled_state dead_net)) =
     [OpWrite 0 ''{}'', OpDial ''udp'' ''localhost:9999''] \<and>
   connPool (processEntry sim_Net pending (pooled_state dead_net)) ''udp:localhost:9999'' = Some 0 \<and>
   stderr (processEntry sim_Net pending (pooled_state dead_net)) =
     ''Error sending data to logstash: connection refused'' \<and>
   formatBuff (processEntry sim_Net pending (pooled_state dead_net)) = [''{}'']"
  using sender_turn[of sim_Net pending "pooled_state broken_net"]
    sender_turn[of sim_Net pending "pooled_state dead_net"]
  by (simp add: pooled_state_def init_state_def pending_def sim_Net_def broken_net_def
      dead_net_def Let_def)

section \<open>The dispatch queue\<close>

text \<open>
  C4, as the code has it. The queue holds at most 1000 messages. A shipping-mode \<open>Fire\<close>
  whose record encodes returns nil in every state; it appends its message when fewer than
  1000 are pending, and when 1000 are pending the queue stays as it is and the message is
  dropped. The model is a total function: the call always returns.
\<close>

theorem full_queue_drops_task:
  assumes "\<not> filtering h" and "Fire_encode ext h e = (buff, None)"
  shows "entryChan_cap = 1000 \<and>
    fst (Fire ext h e s) = None \<and>
    entryChan (snd (snd (Fire ext h e s))) =
      (if length (entryChan s) < 1000
       then entryChan s @ [\<lparr>msg_protocol = protocol h, msg_address = address h, msg_data = buff\<rparr>]
       else entryChan s)"
  using assms by (simp add: Fire_shipping try_send_def entryChan_cap_def)

theorem full_queue_drops_task_witness:
  \<open>\<not> filtering fire_test_hook \<and>
   length (entryChan full_state) = 1000 \<and>
   fst (Fire go_extern fire_test_hook fire_test_entry full_state) = None \<and>
   entryChan (snd (snd (Fire go_extern fire_test_hook fire_test_entry full_state))) =
     replicate 1000 pending \<and>
   entryChan (snd (snd (Fire go_extern fire_test_hook fire_test_entry stale_state))) =
     [\<lparr>msg_protocol = ''udp'', msg_address = ''localhost:9999'',
       msg_data = ''{"@timestamp":"0001-01-01T00:00:00Z","@version":"1","ignore":"haaa","level":"debug","message":"hello world!","override":"yes","test-name":"fire-test","type":"fire_test"}'' @ newline @ newline\<rparr>]\<close>
proof -
  have enc: \<open>Fire_encode go_extern fire_test_hook fire_test_entry =
     (''{"@timestamp":"0001-01-01T00:00:00Z","@version":"1","ignore":"haaa","level":"debug","message":"hello world!","override":"yes","test-name":"fire-test","type":"fire_test"}'' @ newline @ newline, None)\<close>
    by (simp add: Fire_encode_eq marshal_fire_test)
  show ?thesis
    using full_queue_drops_task[OF not_filtering_fire_test_hook enc, of full_state]
      full_queue_drops_task[OF not_filtering_fire_test_hook enc, of stale_state]
    by (simp add: not_filtering_fire_test_hook fire_test_hook_simps full_state_def
        stale_state_def init_state_def)
qed

text \<open>
  The claim as it is worded says that every shipping-mode call on a full queue returns
  without error. A record that cannot be serialised is a counterexample: the call returns
  the encoder's error, with 1000 messages pending as in any other state.
\<close>

theorem full_queue_encoding_error_counterexample:
  "\<not> filtering fire_test_hook \<and>
   length (entryChan full_state) = 1000 \<and>
   fst (Fire go_extern fire_test_hook chan_entry full_state) =
     Some ''Failed to marshal fields to JSON, json: unsupported type: chan int''"
  by (simp add: Fire_shipping not_filtering_fire_test_hook encode_chan_entry full_state_length)

section \<open>The error contract of \<open>Fire\<close>\<close>

text \<open>
  C5. In filter-only mode \<open>Fire\<close> returns nil. In shipping mode it returns what the
  encoder returned, so it returns an error exactly when encoding fails, and then nothing
  is enqueued. The value returned is the same in every state: what the connections and the
  network do, before or after, never reaches the caller.
\<close>

theorem Fire_error_contract:
  "fst (Fire ext h e s) = (if filtering h then None else snd (Fire_encode ext h e)) \<and>
   (fst (Fire ext h e s) \<noteq> None \<longrightarrow>
      entryChan (snd (snd (Fire ext h e s))) = entryChan s) \<and>
   fst (Fire ext h e s) = fst (Fire ext h e s2)"
  by (cases "filtering h"; cases "Fire_encode ext h e")
     (auto simp: Fire_filtering Fire_shipping split: option.splits)

theorem Fire_error_contract_witness:
  "fst (Fire go_extern fire_test_hook chan_entry stale_state) =
     Some ''Failed to marshal fields to JSON, json: unsupported type: chan int'' \<and>
   entryChan (snd (snd (Fire go_extern fire_test_hook chan_entry stale_state))) = [] \<and>
   fst (Fire go_extern fire_test_hook chan_entry full_state) =
     Some ''Failed to marshal fields to JSON, json: unsupported type: chan int'' \<and>
   fst (Fire go_extern fire_test_hook fire_test_entry (pooled_state dead_net)) = None \<and>
   fst (Fire go_extern filter_test_hook chan_entry full_state) = None"
proof -
  have "snd (Fire_encode go_extern fire_test_hook chan_entry) =
     Some ''Failed to marshal fields to JSON, json: unsupported type: chan int''"
    by (simp add: encode_chan_entry)
  moreover have "snd (Fire_encode go_extern fire_test_hook fire_test_entry) = None"
    by (simp add: Fire_encode_eq marshal_fire_test)
  moreover have "entryChan stale_state = []"
    by (simp add: stale_state_def init_state_def)
  ultimately show ?thesis
    using Fire_error_contract[of go_extern fire_test_hook chan_entry stale_state full_state]
      Fire_error_contract[of go_extern fire_test_hook fire_test_entry "pooled_state dead_net"
        "pooled_state dead_net"]
      Fire_error_contract[of go_extern filter_test_hook chan_entry full_state full_state]
    by (auto simp: not_filtering_fire_test_hook filtering_filter_test_hook)
qed

section \<open>The prefix strip\<close>

text \<open>
  C6. With a non-empty prefix \<open>P\<close>, after \<open>Fire\<close> returns (in shipping mode or in
  filter-only mode, whatever became of the encoding and of the enqueueing) the caller's
  record has no field whose name starts with \<open>P\<close>.
\<close>

theorem Fire_strips_prefixed_fields:
  assumes "hookOnlyPrefix h \<noteq> []" and "Fire ext h e s = (r, e', s')"
  shows "\<forall>k \<in> fst ` set (Data e'). \<not> HasPrefix k (hookOnlyPrefix h)"
  using assms Fire_entry[of ext h e s] by (auto simp: filterHookOnly_Data)

theorem Fire_strips_prefixed_fields_witness:
  "hookOnlyPrefix fire_test_hook \<noteq> [] \<and>
   ''->ignore'' \<in> fst ` set (Data (addAlwaysSentFields fire_test_hook fire_test_entry)) \<and>
   ''->ignore'' \<notin> fst ` set (Data (fst (snd (Fire go_extern fire_test_hook fire_test_entry full_state))))"
proof -
  have p: "hookOnlyPrefix fire_test_hook \<noteq> []"
    by (simp add: fire_test_hook_simps)
  obtain r e' s' where f: "Fire go_extern fire_test_hook fire_test_entry full_state = (r, e', s')"
    by (rule prod_cases3)
  have "\<forall>k \<in> fst ` set (Data e'). \<not> HasPrefix k ''->''"
    using Fire_strips_prefixed_fields[OF p f] by (simp add: fire_test_hook_simps)
  moreover have "HasPrefix ''->ignore'' ''->''"
    by (simp add: HasPrefix_def)
  ultimately have "''->ignore'' \<notin> fst ` set (Data e')"
    by blast
  moreover have "''->ignore'' \<in> fst ` set (Data (addAlwaysSentFields fire_test_hook fire_test_entry))"
    by code_simp
  ultimately show ?thesis
    using p f by simp
qed

text \<open>
  C9. The prefix strip is idempotent: for every record and every prefix, stripping twice
  leaves the record's field mapping as stripping once does.
\<close>

theorem filterHookOnly_idempotent:
  "filterHookOnly h (filterHookOnly h e) = filterHookOnly h e"
  by (simp add: filterHookOnly_eq)

theorem filterHookOnly_idempotent_witness:
  "Data (filterHookOnly fire_test_hook
           (filterHookOnly fire_test_hook (addAlwaysSentFields fire_test_hook fire_test_entry))) =
     [(''override'', VString ''yes''), (''test-name'', VString ''fire-test'')]"
proof -
  have "Data (filterHookOnly fire_test_hook (addAlwaysSentFields fire_test_hook fire_test_entry)) =
          [(''override'', VString ''yes''), (''test-name'', VString ''fire-test'')]"
    by code_simp
  then show ?thesis
    using filterHookOnly_idempotent
      [of fire_test_hook "addAlwaysSentFields fire_test_hook fire_test_entry"]
    by simp
qed

section \<open>The default fields\<close>



section \<open>Filter-only mode\<close>

text \<open>
  C8. A hook in filter-only mode merges the default fields and strips the prefix, and does
  nothing else: the call returns nil, and the state (the queue, the buffer pool, the
  connection pool, the network and its trace) is the state before the call. The result
  does not mention the encoder's collaborators.
\<close>

theorem Fire_filter_only_frame:
  "filtering h \<Longrightarrow> Fire ext h e s = (None, filterHookOnly h (addAlwaysSentFields h e), s)"
  by (rule Fire_filtering)

theorem Fire_filter_only_frame_witness:
  "filtering filter_test_hook \<and>
   Fire go_extern filter_test_hook fire_test_entry full_state =
     (None,
      \<lparr>Data = [(''override'', VString ''yes''), (''test-name'', VString ''fire-test-hook'')],
       Time = (), Level = DebugLevel, Message = ''hello world!''\<rparr>,
      full_state)"
proof -
  have f: "filtering filter_test_hook"
    by (simp add: filter_test_hook_def WithFields_def NewFilterHookWithPrefix_def)
  have "filterHookOnly filter_test_hook (addAlwaysSentFields filter_test_hook fire_test_entry) =
     \<lparr>Data = [(''override'', VString ''yes''), (''test-name'', VString ''fire-test-hook'')],
      Time = (), Level = DebugLevel, Message = ''hello world!''\<rparr>"
    by code_simp
  with f show ?thesis
    using Fire_filter_only_frame[OF f, of go_extern fire_test_entry full_state] by simp
qed

section \<open>The buffer pool\<close>

text \<open>
  C10. In shipping mode, when encoding fails or the queue is full, the state after \<open>Fire\<close>
  is the state before it less the buffer that the call borrowed: the buffer is in neither
  the pool nor the queue. \<open>Fire\<close> never puts a buffer into the pool, in any mode; the
  sender's turn puts back the buffer of the message it has taken from the queue.
\<close>

theorem borrowed_buffer_not_returned:
  "(\<not> filtering h \<and> (snd (Fire_encode ext h e) \<noteq> None \<or> entryChan_cap \<le> length (entryChan s)) \<longrightarrow>
      snd (snd (Fire ext h e s)) = s\<lparr>formatBuff := snd (pool_Get (formatBuff s))\<rparr>) \<and>
   formatBuff (snd (snd (Fire ext h e s))) =
     (if filtering h then formatBuff s else snd (pool_Get (formatBuff s))) \<and>
   formatBuff (processEntry N d s2) = pool_Put (msg_data d) (formatBuff s2) \<and>
   entryChan (processEntry N d s2) = entryChan s2"
proof -
  have a: "formatBuff (processEntry N d s2) = pool_Put (msg_data d) (formatBuff s2)"
    by (simp add: processEntry_def sendDataAndRetry_def dial_and_write_def do_Write_def
        do_Dial_def Let_def split: prod.splits sum.splits option.splits)
  have b: "entryChan (processEntry N d s2) = entryChan s2"
    by (simp add: processEntry_def sendDataAndRetry_def dial_and_write_def do_Write_def
        do_Dial_def Let_def split: prod.splits sum.splits option.splits)
  show ?thesis
    by (cases "filtering h"; cases "Fire_encode ext h e")
       (auto simp: a b Fire_filtering Fire_shipping try_send_def split: option.splits)
qed

theorem borrowed_buffer_not_returned_witness:
  "\<not> filtering fire_test_hook \<and>
   snd (Fire_encode go_extern fire_test_hook chan_entry) \<noteq> None \<and>
   formatBuff stale_state = [''stale bytes''] \<and>
   snd (snd (Fire go_extern fire_test_hook chan_entry stale_state)) = init_state quiet_net \<and>
   entryChan_cap \<le> length (entryChan full_state) \<and>
   snd (snd (Fire go_extern fire_test_hook fire_test_entry
               (full_state\<lparr>formatBuff := [''stale bytes'']\<rparr>))) = full_state"
proof -
  have e: "snd (Fire_encode go_extern fire_test_hook chan_entry) \<noteq> None"
    by (simp add: encode_chan_entry)
  have f: "entryChan_cap \<le> length (entryChan (full_state\<lparr>formatBuff := [''stale bytes'']\<rparr>))"
    by (simp add: entryChan_cap_def full_state_length)
  show ?thesis
    using borrowed_buffer_not_returned[of fire_test_hook go_extern chan_entry stale_state
        sim_Net pending stale_state]
      borrowed_buffer_not_returned[of fire_test_hook go_extern fire_test_entry
        "full_state\<lparr>formatBuff := [''stale bytes'']\<rparr>" sim_Net pending stale_state]
      e f
    by (simp add: not_filtering_fire_test_hook stale_state_def init_state_def pool_Get_def
        full_state_def entryChan_cap_def)
qed

end
